theory Spec2Isabelle
  imports Complex_Main "HOL-Library.Multiset" "HOL-Library.AList"
begin

section \<open>Exceptions as values\<close>

text \<open>
  A call returns a value or raises. \<open>NameError\<close> is the read of a name that the module
  never binds, \<open>AttributeError\<close> the call of a method that no class defines,
  \<open>KeyError\<close>, \<open>IndexError\<close> and \<open>TypeError\<close> come from indexing and hashing, and
  \<open>Raised\<close> carries the class name of an exception raised inside a routine of networkx,
  python-louvain, scikit-learn or numpy.
\<close>

datatype error = KeyError | IndexError | TypeError | NameError | AttributeError | Raised string

definition and_then :: "error + 'a \<Rightarrow> ('a \<Rightarrow> error + 'b) \<Rightarrow> error + 'b" where
  "and_then m f = (case m of Inl e \<Rightarrow> Inl e | Inr x \<Rightarrow> f x)"

section \<open>Registry records handed to the graph builder\<close>

text \<open>
  The bundles of \<^verbatim>\<open>get_complete_company_data\<close>: JSON objects read with
  \<^verbatim>\<open>.get\<close>, so every field that may be absent is an option. An address is kept
  as the dictionary it is (an association list), because the builder tests its
  truthiness: an empty dictionary is skipped.
\<close>

type_synonym company_number = string

type_synonym address = "(string \<times> string) list"

record date_of_birth =
  month :: "int option"
  year :: "int option"

record officer =
  name :: "string option"
  date_of_birth :: "date_of_birth option"

record psc_record =
  kind :: "string option"
  psc_name :: "string option"

record profile =
  company_number :: company_number
  date_of_creation :: "string option"
  type_of_company :: "string option"
  company_status :: "string option"
  sic_codes :: "string list option"
  registered_office_address :: "address option"

record company_data =
  profile :: "profile option"
  officers :: "officer list"
  psc :: "psc_record list"
  filing_history :: "string list"

section \<open>The undirected graph (networkx \<^verbatim>\<open>Graph\<close>)\<close>

text \<open>
  \<^verbatim>\<open>nx.Graph\<close> keeps one attribute dictionary per node, in insertion order, and
  one attribute dictionary per unordered pair of adjacent nodes, stored under both
  orientations. Every \<^verbatim>\<open>add_edge\<close> of this program passes both
  \<^verbatim>\<open>relationship_type\<close> and \<^verbatim>\<open>strength\<close>, so the update of an existing
  edge dictionary replaces both values.
\<close>

record edge_attrs =
  relationship_type :: string
  strength :: real

record node_attrs =
  incorporation_date :: "string option"
  company_type :: "string option"
  node_status :: "string option"
  node_sic_codes :: "string list"
  registered_office :: "address option"
  directors :: "officer list"
  node_psc :: "psc_record list"
  node_filing_history :: "string list"

record graph =
  nodes :: "(company_number \<times> node_attrs) list"
  adj :: "company_number \<times> company_number \<Rightarrow> edge_attrs option"


definition no_attrs :: node_attrs where
  "no_attrs = \<lparr>incorporation_date = None, company_type = None, node_status = None,
     node_sic_codes = [], registered_office = None, directors = [], node_psc = [],
     node_filing_history = []\<rparr>"

definition add_node :: "graph \<Rightarrow> company_number \<Rightarrow> node_attrs \<Rightarrow> graph" where
  "add_node g n a = g\<lparr>nodes := AList.update n a (nodes g)\<rparr>"

definition touch_node :: "graph \<Rightarrow> company_number \<Rightarrow> graph" where
  "touch_node g n = (if n \<in> fst ` set (nodes g) then g else g\<lparr>nodes := nodes g @ [(n, no_attrs)]\<rparr>)"

definition add_edge :: "graph \<Rightarrow> company_number \<Rightarrow> company_number \<Rightarrow> edge_attrs \<Rightarrow> graph" where
  "add_edge g u v a =
     (let g1 = touch_node (touch_node g u) v
      in g1\<lparr>adj := (adj g1)((u, v) \<mapsto> a, (v, u) \<mapsto> a)\<rparr>)"

section \<open>build_company_network\<close>

text \<open>
  Each rule groups company numbers in a dictionary from key to \<^verbatim>\<open>set\<close>. The
  dictionary keeps insertion order; a Python set of strings does not, so the list made
  by \<^verbatim>\<open>list(companies)\<close> is the set's members in an order the program does not
  control: \<open>to_list\<close> stands for it, applied to the members in insertion order.
\<close>

definition add_member :: "'k \<Rightarrow> company_number \<Rightarrow> ('k \<times> company_number list) list
    \<Rightarrow> ('k \<times> company_number list) list" where
  "add_member k c d =
     (case map_of d k of
        None \<Rightarrow> d @ [(k, [c])]
      | Some s \<Rightarrow> AList.update k (if c \<in> set s then s else s @ [c]) d)"

definition group_companies :: "(company_data \<Rightarrow> 'k list) \<Rightarrow> company_data list
    \<Rightarrow> ('k \<times> company_number list) list" where
  "group_companies keys companies_data =
     foldl (\<lambda>d data. case profile data of
                        None \<Rightarrow> d
                      | Some p \<Rightarrow> foldl (\<lambda>d k. add_member k (company_number p) d) d (keys data))
       [] companies_data"

fun add_pairs :: "edge_attrs \<Rightarrow> graph \<Rightarrow> company_number list \<Rightarrow> graph" where
  "add_pairs a g [] = g"
| "add_pairs a g (c # cs) = add_pairs a (foldl (\<lambda>g d. add_edge g c d a) g cs) cs"

definition add_group_edges :: "(company_number list \<Rightarrow> company_number list) \<Rightarrow> edge_attrs
    \<Rightarrow> graph \<Rightarrow> ('k \<times> company_number list) list \<Rightarrow> graph" where
  "add_group_edges to_list a g groups =
     foldl (\<lambda>g (k, companies). if length companies > 1 then add_pairs a g (to_list companies) else g)
       g groups"

definition director_key :: "officer \<Rightarrow> string option \<times> int option \<times> int option" where
  "director_key off =
     (name off,
      (case date_of_birth off of None \<Rightarrow> None | Some d \<Rightarrow> month d),
      (case date_of_birth off of None \<Rightarrow> None | Some d \<Rightarrow> year d))"

definition director_keys :: "company_data \<Rightarrow> (string option \<times> int option \<times> int option) list" where
  "director_keys data = map director_key (officers data)"

definition address_keys :: "company_data \<Rightarrow> (string option \<times> string option) list" where
  "address_keys data =
     (case profile data of
        None \<Rightarrow> []
      | Some p \<Rightarrow>
          (case registered_office_address p of
             None \<Rightarrow> []
           | Some address \<Rightarrow>
               if address = [] then []
               else [(map_of address ''address_line_1'', map_of address ''postal_code'')]))"

definition psc_keys :: "company_data \<Rightarrow> string option list" where
  "psc_keys data = map psc_name (filter (\<lambda>p. kind p = Some ''corporate-entity'') (psc data))"

definition shared_director :: edge_attrs where
  "shared_director = \<lparr>relationship_type = ''shared_director'', strength = 7 / 10\<rparr>"

definition shared_address :: edge_attrs where
  "shared_address = \<lparr>relationship_type = ''shared_address'', strength = 6 / 10\<rparr>"

definition shared_psc :: edge_attrs where
  "shared_psc = \<lparr>relationship_type = ''shared_psc'', strength = 8 / 10\<rparr>"

definition add_director_relationships :: "(company_number list \<Rightarrow> company_number list)
    \<Rightarrow> graph \<Rightarrow> company_data list \<Rightarrow> graph" where
  "add_director_relationships to_list g companies_data =
     add_group_edges to_list shared_director g (group_companies director_keys companies_data)"

definition add_address_relationships :: "(company_number list \<Rightarrow> company_number list)
    \<Rightarrow> graph \<Rightarrow> company_data list \<Rightarrow> graph" where
  "add_address_relationships to_list g companies_data =
     add_group_edges to_list shared_address g (group_companies address_keys companies_data)"

definition add_psc_relationships :: "(company_number list \<Rightarrow> company_number list)
    \<Rightarrow> graph \<Rightarrow> company_data list \<Rightarrow> graph" where
  "add_psc_relationships to_list g companies_data =
     add_group_edges to_list shared_psc g (group_companies psc_keys companies_data)"

definition node_of_bundle :: "profile \<Rightarrow> company_data \<Rightarrow> node_attrs" where
  "node_of_bundle p data =
     \<lparr>incorporation_date = date_of_creation p,
      company_type = type_of_company p,
      node_status = company_status p,
      node_sic_codes = (case sic_codes p of None \<Rightarrow> [] | Some cs \<Rightarrow> cs),
      registered_office = registered_office_address p,
      directors = officers data,
      node_psc = psc data,
      node_filing_history = filing_history data\<rparr>"

definition add_company_nodes :: "graph \<Rightarrow> company_data list \<Rightarrow> graph" where
  "add_company_nodes g companies_data =
     foldl (\<lambda>g data. case profile data of
                        None \<Rightarrow> g
                      | Some p \<Rightarrow> add_node g (company_number p) (node_of_bundle p data))
       g companies_data"

text \<open>
  \<^verbatim>\<open>companies_house_fetcher.py\<close> imports \<^verbatim>\<open>requests\<close>, \<^verbatim>\<open>pandas\<close>, \<^verbatim>\<open>datetime\<close>,
  \<^verbatim>\<open>typing\<close> and \<^verbatim>\<open>os\<close>. It never binds the name \<^verbatim>\<open>nx\<close>, so the first statement
  of \<^verbatim>\<open>build_company_network\<close>, \<^verbatim>\<open>G = nx.Graph()\<close>, raises \<^verbatim>\<open>NameError\<close> (where
  annotations are evaluated at definition time, the annotation \<^verbatim>\<open>-> nx.Graph\<close> raises it
  already when the class body runs).
\<close>

definition nx_Graph :: "error + graph" where
  "nx_Graph = Inl NameError"

definition build_company_network :: "(company_number list \<Rightarrow> company_number list)
    \<Rightarrow> company_data list \<Rightarrow> error + graph" where
  "build_company_network to_list companies_data =
     and_then nx_Graph (\<lambda>G.
       let G = add_company_nodes G companies_data;
           G = add_director_relationships to_list G companies_data;
           G = add_address_relationships to_list G companies_data;
           G = add_psc_relationships to_list G companies_data
       in Inr G)"

text \<open>
  A rule proposes an edge between two different company numbers when some key of the
  rule is carried by a bundle of each.
\<close>

definition proposes :: "(company_data \<Rightarrow> 'k list) \<Rightarrow> company_data list
    \<Rightarrow> company_number \<Rightarrow> company_number \<Rightarrow> bool" where
  "proposes keys companies_data u v \<longleftrightarrow>
     u \<noteq> v \<and>
     (\<exists>b1 \<in> set companies_data. \<exists>b2 \<in> set companies_data.
        (case profile b1 of None \<Rightarrow> False | Some p1 \<Rightarrow> company_number p1 = u) \<and>
        (case profile b2 of None \<Rightarrow> False | Some p2 \<Rightarrow> company_number p2 = v) \<and>
        (\<exists>k \<in> set (keys b1). k \<in> set (keys b2)))"

text \<open>Auxiliary notions for reasoning about the grouping dictionaries and the pair loops.\<close>

definition linked :: "company_number \<Rightarrow> company_number list \<Rightarrow> company_number \<Rightarrow> company_number \<Rightarrow> bool" where
  "linked c cs x y \<longleftrightarrow> (\<exists>d \<in> set cs. {x, y} = {c, d})"

definition both_in :: "company_number list \<Rightarrow> company_number \<Rightarrow> company_number \<Rightarrow> bool" where
  "both_in cs x y \<longleftrightarrow> x \<noteq> y \<and> x \<in> set cs \<and> y \<in> set cs"

definition in_group :: "('k \<times> company_number list) list \<Rightarrow> company_number \<Rightarrow> company_number \<Rightarrow> bool" where
  "in_group groups x y \<longleftrightarrow> (\<exists>kc \<in> set groups. both_in (snd kc) x y)"

definition members :: "('k \<times> company_number list) list \<Rightarrow> 'k \<Rightarrow> company_number set" where
  "members d k = (case map_of d k of None \<Rightarrow> {} | Some s \<Rightarrow> set s)"

definition wf_groups :: "('k \<times> company_number list) list \<Rightarrow> bool" where
  "wf_groups d \<longleftrightarrow> distinct (map fst d) \<and> (\<forall>kc \<in> set d. distinct (snd kc))"

definition carriers :: "(company_data \<Rightarrow> 'k list) \<Rightarrow> company_data list \<Rightarrow> 'k \<Rightarrow> company_number set" where
  "carriers keys companies_data k =
     {company_number p | b p. b \<in> set companies_data \<and> profile b = Some p \<and> k \<in> set (keys b)}"

definition group_step :: "(company_data \<Rightarrow> 'k list) \<Rightarrow> ('k \<times> company_number list) list
    \<Rightarrow> company_data \<Rightarrow> ('k \<times> company_number list) list" where
  "group_step keys d data =
     (case profile data of None \<Rightarrow> d
      | Some p \<Rightarrow> foldl (\<lambda>d k. add_member k (company_number p) d) d (keys data))"

text \<open>Two companies with the same director and the same registered office.\<close>

definition example_profile :: "company_number \<Rightarrow> address option \<Rightarrow> profile" where
  "example_profile cn addr =
     \<lparr>company_number = cn, date_of_creation = Some ''2024-03-01'', type_of_company = Some ''ltd'',
      company_status = Some ''active'', sic_codes = None, registered_office_address = addr\<rparr>"

definition example_officer :: officer where
  "example_officer = \<lparr>name = Some ''SMITH, Ann'',
     date_of_birth = Some \<lparr>month = Some 4, year = Some 1980\<rparr>\<rparr>"

definition example_address :: address where
  "example_address = [(''address_line_1'', ''1 High Street''), (''postal_code'', ''AB1 2CD'')]"

definition example_company :: "company_number \<Rightarrow> company_data" where
  "example_company cn =
     \<lparr>profile = Some (example_profile cn (Some example_address)),
      officers = [example_officer], psc = [], filing_history = []\<rparr>"

definition example_data :: "company_data list" where
  "example_data = [example_company ''A'', example_company ''B'']"

text \<open>The same two companies, each also owned by one corporate entity.\<close>

definition example_owner :: psc_record where
  "example_owner = \<lparr>kind = Some ''corporate-entity'', psc_name = Some ''HOLDCO LTD''\<rparr>"

definition example_owned :: "company_number \<Rightarrow> company_data" where
  "example_owned cn = (example_company cn)\<lparr>psc := [example_owner]\<rparr>"

definition example_owned_data :: "company_data list" where
  "example_owned_data = [example_owned ''A'', example_owned ''B'']"

section \<open>The network analyzer\<close>

fun traverse :: "('a \<Rightarrow> error + 'b) \<Rightarrow> 'a list \<Rightarrow> error + 'b list" where
  "traverse f [] = Inr []"
| "traverse f (x # xs) =
     and_then (f x) (\<lambda>y. and_then (traverse f xs) (\<lambda>ys. Inr (y # ys)))"

definition lookup :: "('k \<rightharpoonup> 'v) \<Rightarrow> 'k \<Rightarrow> error + 'v" where
  "lookup d k = (case d k of None \<Rightarrow> Inl KeyError | Some v \<Rightarrow> Inr v)"

text \<open>A dictionary filled by \<^verbatim>\<open>d[k] = v\<close> in a loop, in insertion order.\<close>

definition dict_of :: "('k \<times> 'v) list \<Rightarrow> ('k \<times> 'v) list" where
  "dict_of ps = foldl (\<lambda>d kv. AList.update (fst kv) (snd kv) d) [] ps"

text \<open>
  The loops \<^verbatim>\<open>for k in keys: d[k] = f(k)\<close> and
  \<^verbatim>\<open>for i, k in enumerate(keys): d[k] = f(i, k)\<close>; the first exception ends the loop.
\<close>

definition fill_dict :: "('k \<Rightarrow> error + 'v) \<Rightarrow> 'k list \<Rightarrow> error + ('k \<times> 'v) list" where
  "fill_dict f ks =
     and_then (traverse (\<lambda>k. and_then (f k) (\<lambda>v. Inr (k, v))) ks) (\<lambda>ps. Inr (dict_of ps))"

definition fill_dict_indexed :: "(nat \<Rightarrow> 'k \<Rightarrow> error + 'v) \<Rightarrow> 'k list \<Rightarrow> error + ('k \<times> 'v) list" where
  "fill_dict_indexed f ks =
     and_then (traverse (\<lambda>ik. and_then (f (fst ik) (snd ik)) (\<lambda>v. Inr (snd ik, v))) (enumerate 0 ks))
       (\<lambda>ps. Inr (dict_of ps))"

type_synonym node = company_number

type_synonym matrix = "real list list"

record pattern =
  ptype :: "string option"
  entities :: "node list option"
  hub :: "node option"
  spokes :: "node list option"
  date :: "string option"
  shared_attributes :: "(string \<times> string list) list option"
  risk_level :: "string option"

record centrality =
  degree :: real
  betweenness :: real
  eigenvector :: real
  pagerank :: real
  load :: real
  katz :: real
  clustering_coefficient :: real
  reach :: real

record network_metrics =
  centrality_scores :: "(node \<times> centrality) list"
  community_membership :: "(node \<times> int) list"
  risk_patterns :: "pattern list"
  temporal_patterns :: "pattern list"
  suspicious_cycles :: "node list list"
  anomaly_scores :: "(node \<times> real) list"

text \<open>
  The routines of networkx, python-louvain, scikit-learn and numpy that the analyzer
  calls, and the interpreter's iteration order of a set of integers. Each is a parameter;
  each routine may raise. \<^verbatim>\<open>community.best_partition\<close> draws from the random generator,
  so its result also depends on the generator's state at the call, the \<open>nat\<close> argument:
  two calls need not see the same partition. \<open>np_cov m\<close> stands for \<^verbatim>\<open>np.cov(m.T)\<close> and
  \<open>np_distance row mean inv_cov\<close> for \<^verbatim>\<open>np.sqrt(diff.dot(inv_cov).dot(diff.T))\<close> with
  \<^verbatim>\<open>diff = row - mean\<close>.
\<close>

record library =
  degree_centrality :: "graph \<Rightarrow> error + (node \<rightharpoonup> real)"
  betweenness_centrality :: "graph \<Rightarrow> error + (node \<rightharpoonup> real)"
  eigenvector_centrality :: "graph \<Rightarrow> nat \<Rightarrow> error + (node \<rightharpoonup> real)"
  pagerank_centrality :: "graph \<Rightarrow> error + (node \<rightharpoonup> real)"
  load_centrality :: "graph \<Rightarrow> error + (node \<rightharpoonup> real)"
  katz_centrality :: "graph \<Rightarrow> error + (node \<rightharpoonup> real)"
  clustering :: "graph \<Rightarrow> node \<Rightarrow> error + real"
  best_partition :: "graph \<Rightarrow> nat \<Rightarrow> error + (node \<rightharpoonup> int)"
  label_propagation_communities :: "graph \<Rightarrow> error + node list list"
  girvan_newman :: "graph \<Rightarrow> error + node list list list"
  simple_cycles :: "graph \<Rightarrow> error + node list list"
  fit_transform :: "matrix \<Rightarrow> error + matrix"
  np_cov :: "matrix \<Rightarrow> error + matrix"
  linalg_inv :: "matrix \<Rightarrow> error + matrix"
  np_mean :: "matrix \<Rightarrow> error + real list"
  np_distance :: "real list \<Rightarrow> real list \<Rightarrow> matrix \<Rightarrow> error + real"
  set_iteration :: "int list \<Rightarrow> int list"

text \<open>
  \<^verbatim>\<open>NetworkAnalyzer\<close> calls seven methods on \<^verbatim>\<open>self\<close> that neither the class (which has
  no base class) nor any other module of the repository defines; only the tests call them
  too. The attribute lookup raises \<^verbatim>\<open>AttributeError\<close> whatever the arguments.
\<close>

definition calculate_reach_centrality :: "graph \<Rightarrow> node \<Rightarrow> error + real" where
  "calculate_reach_centrality g n = Inl AttributeError"

definition find_circular_ownership :: "graph \<Rightarrow> error + node list list" where
  "find_circular_ownership g = Inl AttributeError"

definition identify_hub_spoke_patterns :: "graph \<Rightarrow> error + (node \<times> node list) list" where
  "identify_hub_spoke_patterns g = Inl AttributeError"

definition analyze_network_growth :: "graph \<Rightarrow> error + pattern list" where
  "analyze_network_growth g = Inl AttributeError"

definition identify_isolated_subgroups :: "graph \<Rightarrow> error + node list list" where
  "identify_isolated_subgroups g = Inl AttributeError"

definition check_shared_attributes :: "graph \<Rightarrow> node list \<Rightarrow> error + (string \<times> string list) list" where
  "check_shared_attributes g es = Inl AttributeError"

definition calculate_cycle_risk :: "graph \<Rightarrow> node list \<Rightarrow> error + real" where
  "calculate_cycle_risk g cycle = Inl AttributeError"

definition graph_nodes :: "graph \<Rightarrow> node list" where
  "graph_nodes g = map fst (nodes g)"

definition risk_threshold :: real where
  "risk_threshold = 75 / 100"

subsection \<open>_calculate_centrality_metrics\<close>

definition node_centrality :: "library \<Rightarrow> graph \<Rightarrow> node \<Rightarrow> error + centrality" where
  "node_centrality lib g n =
     and_then (and_then (degree_centrality lib g) (\<lambda>d. lookup d n)) (\<lambda>deg.
     and_then (and_then (betweenness_centrality lib g) (\<lambda>d. lookup d n)) (\<lambda>bet.
     and_then (and_then (eigenvector_centrality lib g 1000) (\<lambda>d. lookup d n)) (\<lambda>eig.
     and_then (and_then (pagerank_centrality lib g) (\<lambda>d. lookup d n)) (\<lambda>pr.
     and_then (and_then (load_centrality lib g) (\<lambda>d. lookup d n)) (\<lambda>ld.
     and_then (and_then (katz_centrality lib g) (\<lambda>d. lookup d n)) (\<lambda>kz.
     and_then (clustering lib g n) (\<lambda>clu.
     and_then (calculate_reach_centrality g n) (\<lambda>rea.
     Inr \<lparr>degree = deg, betweenness = bet, eigenvector = eig, pagerank = pr, load = ld,
          katz = kz, clustering_coefficient = clu, reach = rea\<rparr>))))))))"

definition calculate_centrality_metrics :: "library \<Rightarrow> graph \<Rightarrow> error + (node \<times> centrality) list" where
  "calculate_centrality_metrics lib g = fill_dict (node_centrality lib g) (graph_nodes g)"

subsection \<open>_detect_communities\<close>

text \<open>
  The label-propagation dictionary is built from \<^verbatim>\<open>enumerate\<close>, whose pairs are
  (index, community): its keys are integers and its values are sets of nodes. The other
  two dictionaries are keyed by node. A dictionary key is therefore an integer or a node,
  and a looked-up label is an integer or a community.
\<close>

datatype pykey = IntKey nat | NodeKey node

datatype label = Label int | Community "node list"

definition dict_get :: "(pykey \<times> label) list \<Rightarrow> pykey \<Rightarrow> label \<Rightarrow> label" where
  "dict_get d k dflt = (case map_of d k of None \<Rightarrow> dflt | Some v \<Rightarrow> v)"

definition louvain_dict :: "(node \<rightharpoonup> int) \<Rightarrow> node \<Rightarrow> label" where
  "louvain_dict part n = (case part n of None \<Rightarrow> Label 0 | Some c \<Rightarrow> Label c)"

definition label_prop_dict :: "node list list \<Rightarrow> (pykey \<times> label) list" where
  "label_prop_dict comms = map (\<lambda>(i, comm). (IntKey i, Community comm)) (enumerate 0 comms)"

definition gn_dict :: "node list list \<Rightarrow> (pykey \<times> label) list" where
  "gn_dict level =
     rev (concat (map (\<lambda>(comm, ns). map (\<lambda>n. (NodeKey n, Label (int comm))) ns)
                      (enumerate 0 level)))"

fun first_max :: "('a \<Rightarrow> nat) \<Rightarrow> 'a \<Rightarrow> 'a list \<Rightarrow> 'a" where
  "first_max key best [] = best"
| "first_max key best (x # xs) = first_max key (if key best < key x then x else best) xs"

definition py_max :: "('a \<Rightarrow> nat) \<Rightarrow> 'a list \<Rightarrow> error + 'a" where
  "py_max key xs = (case xs of [] \<Rightarrow> Inl (Raised ''ValueError'') | x # rest \<Rightarrow> Inr (first_max key x rest))"

fun hashable :: "label list \<Rightarrow> error + int list" where
  "hashable [] = Inr []"
| "hashable (Label i # ls) = and_then (hashable ls) (\<lambda>is. Inr (i # is))"
| "hashable (Community c # ls) = Inl TypeError"

definition most_common :: "(int list \<Rightarrow> int list) \<Rightarrow> label list \<Rightarrow> error + int" where
  "most_common iteration communities =
     and_then (hashable communities) (\<lambda>ls. py_max (count_list ls) (iteration ls))"

definition collected_labels :: "(node \<Rightarrow> label) \<Rightarrow> (pykey \<times> label) list \<Rightarrow> (node \<Rightarrow> label)
    \<Rightarrow> node \<Rightarrow> label list" where
  "collected_labels louvain_communities label_prop_communities gn_communities n =
     [louvain_communities n,
      dict_get label_prop_communities (NodeKey n) (Label 0),
      gn_communities n]"

definition hierarchical_communities :: "library \<Rightarrow> graph \<Rightarrow> (node \<rightharpoonup> int)
    \<Rightarrow> error + (node \<Rightarrow> label)" where
  "hierarchical_communities lib g part =
     (if length (nodes g) < 1000
      then and_then (girvan_newman lib g) (\<lambda>levels.
             case levels of [] \<Rightarrow> Inl IndexError
             | level # _ \<Rightarrow> Inr (\<lambda>n. dict_get (gn_dict level) (NodeKey n) (Label 0)))
      else Inr (louvain_dict part))"

definition detect_communities :: "library \<Rightarrow> nat \<Rightarrow> graph \<Rightarrow> error + (node \<times> int) list" where
  "detect_communities lib random_state g =
     and_then (best_partition lib g random_state) (\<lambda>part.
     and_then (label_propagation_communities lib g) (\<lambda>comms.
     and_then (hierarchical_communities lib g part) (\<lambda>gn_communities.
     fill_dict (\<lambda>n. most_common (set_iteration lib)
                  (collected_labels (louvain_dict part) (label_prop_dict comms) gn_communities n))
       (graph_nodes g))))"

subsection \<open>_identify_risk_patterns, _analyze_temporal_patterns, _detect_suspicious_cycles\<close>

definition entity_pattern :: "string \<Rightarrow> string \<Rightarrow> node list \<Rightarrow> pattern" where
  "entity_pattern t level es =
     \<lparr>ptype = Some t, entities = Some es, hub = None, spokes = None, date = None,
      shared_attributes = None, risk_level = Some level\<rparr>"

definition hub_spoke_pattern :: "node \<times> node list \<Rightarrow> pattern" where
  "hub_spoke_pattern hs =
     \<lparr>ptype = Some ''hub_spoke'', entities = None, hub = Some (fst hs), spokes = Some (snd hs),
      date = None, shared_attributes = None, risk_level = Some ''medium''\<rparr>"

definition identify_risk_patterns :: "graph \<Rightarrow> error + pattern list" where
  "identify_risk_patterns g =
     and_then (find_circular_ownership g) (\<lambda>circular_structures.
     and_then (identify_hub_spoke_patterns g) (\<lambda>hub_spoke.
     and_then (analyze_network_growth g) (\<lambda>growth_patterns.
     and_then (identify_isolated_subgroups g) (\<lambda>isolated_groups.
     Inr (map (entity_pattern ''circular_ownership'' ''high'') circular_structures
          @ map hub_spoke_pattern hub_spoke
          @ growth_patterns
          @ map (entity_pattern ''isolated_subgroup'' ''medium'') isolated_groups)))))"

definition append_to_group :: "string \<Rightarrow> node \<Rightarrow> (string \<times> node list) list \<Rightarrow> (string \<times> node list) list" where
  "append_to_group k n d =
     (case map_of d k of None \<Rightarrow> d @ [(k, [n])] | Some ns \<Rightarrow> AList.update k (ns @ [n]) d)"

definition date_groups :: "graph \<Rightarrow> (string \<times> node list) list" where
  "date_groups g =
     foldl (\<lambda>d na. case incorporation_date (snd na) of
                      None \<Rightarrow> d
                    | Some inc_date \<Rightarrow> if inc_date = [] then d else append_to_group inc_date (fst na) d)
       [] (nodes g)"

definition bulk_incorporation :: "string \<Rightarrow> node list \<Rightarrow> (string \<times> string list) list \<Rightarrow> pattern" where
  "bulk_incorporation d es shared =
     \<lparr>ptype = Some ''bulk_incorporation'', entities = Some es, hub = None, spokes = None,
      date = Some d, shared_attributes = Some shared, risk_level = Some ''high''\<rparr>"

definition analyze_temporal_patterns :: "graph \<Rightarrow> error + pattern list" where
  "analyze_temporal_patterns g =
     and_then (traverse (\<lambda>de.
         if 3 \<le> length (snd de)
         then and_then (check_shared_attributes g (snd de)) (\<lambda>shared.
                Inr (if shared \<noteq> [] then [bulk_incorporation (fst de) (snd de) shared] else []))
         else Inr []) (date_groups g))
       (\<lambda>found. Inr (concat found))"

definition detect_suspicious_cycles :: "library \<Rightarrow> graph \<Rightarrow> error + node list list" where
  "detect_suspicious_cycles lib g =
     and_then (simple_cycles lib g) (\<lambda>cycles.
     and_then (traverse (\<lambda>cycle.
         if 3 \<le> length cycle
         then and_then (calculate_cycle_risk g cycle) (\<lambda>cycle_risk.
                Inr (if risk_threshold < cycle_risk then [cycle] else []))
         else Inr []) cycles)
       (\<lambda>found. Inr (concat found)))"

subsection \<open>_calculate_anomaly_scores\<close>

text \<open>The feature loop; \<^verbatim>\<open>eigenvector_centrality\<close> is called with its default cap of 100.\<close>

definition node_features :: "library \<Rightarrow> graph \<Rightarrow> node \<Rightarrow> error + real list" where
  "node_features lib g n =
     and_then (and_then (degree_centrality lib g) (\<lambda>d. lookup d n)) (\<lambda>deg.
     and_then (and_then (betweenness_centrality lib g) (\<lambda>d. lookup d n)) (\<lambda>bet.
     and_then (and_then (eigenvector_centrality lib g 100) (\<lambda>d. lookup d n)) (\<lambda>eig.
     and_then (clustering lib g n) (\<lambda>clu.
     and_then (calculate_reach_centrality g n) (\<lambda>rea.
     Inr [deg, bet, eig, clu, rea])))))"

definition anomaly_features :: "library \<Rightarrow> graph \<Rightarrow> error + matrix" where
  "anomaly_features lib g = traverse (node_features lib g) (graph_nodes g)"

definition row_at :: "matrix \<Rightarrow> nat \<Rightarrow> error + real list" where
  "row_at m i = (if i < length m then Inr (m ! i) else Inl IndexError)"

definition calculate_anomaly_scores :: "library \<Rightarrow> graph \<Rightarrow> error + (node \<times> real) list" where
  "calculate_anomaly_scores lib g =
     and_then (anomaly_features lib g) (\<lambda>features.
     and_then (fit_transform lib features) (\<lambda>normalized_features.
     and_then (np_cov lib normalized_features) (\<lambda>cov.
     and_then (linalg_inv lib cov) (\<lambda>inv_cov.
     and_then (np_mean lib normalized_features) (\<lambda>mean.
     fill_dict_indexed (\<lambda>i n. and_then (row_at normalized_features i) (\<lambda>row.
                                np_distance lib row mean inv_cov))
       (graph_nodes g))))))"

subsection \<open>calculate_network_metrics and get_high_risk_entities\<close>

definition calculate_network_metrics :: "library \<Rightarrow> nat \<Rightarrow> graph \<Rightarrow> error + network_metrics" where
  "calculate_network_metrics lib random_state g =
     and_then (calculate_centrality_metrics lib g) (\<lambda>cs.
     and_then (detect_communities lib random_state g) (\<lambda>cm.
     and_then (identify_risk_patterns g) (\<lambda>rp.
     and_then (analyze_temporal_patterns g) (\<lambda>tp.
     and_then (detect_suspicious_cycles lib g) (\<lambda>sc.
     and_then (calculate_anomaly_scores lib g) (\<lambda>an.
     Inr \<lparr>centrality_scores = cs, community_membership = cm, risk_patterns = rp,
          temporal_patterns = tp, suspicious_cycles = sc, anomaly_scores = an\<rparr>))))))"

record risk_entry =
  entity :: node
  risk_factors :: "string list"
  anomaly_score :: real
  entry_centrality :: centrality

definition pattern_factor :: "node \<Rightarrow> pattern \<Rightarrow> error + string list" where
  "pattern_factor n p =
     (if n \<in> set (case entities p of None \<Rightarrow> [] | Some es \<Rightarrow> es)
      then (case ptype p of None \<Rightarrow> Inl KeyError | Some t \<Rightarrow> Inr [''involved_in_'' @ t])
      else Inr [])"

definition node_risk_factors :: "network_metrics \<Rightarrow> real \<Rightarrow> node \<Rightarrow> error + string list" where
  "node_risk_factors metrics threshold n =
     and_then (lookup (map_of (centrality_scores metrics)) n) (\<lambda>c.
     and_then (lookup (map_of (community_membership metrics)) n) (\<lambda>community_id.
     and_then (traverse (pattern_factor n) (risk_patterns metrics)) (\<lambda>involved.
     and_then (lookup (map_of (anomaly_scores metrics)) n) (\<lambda>a.
     Inr ((if threshold < betweenness c then [''high_betweenness_centrality''] else [])
          @ (if threshold < pagerank c then [''high_pagerank''] else [])
          @ (if length (filter (\<lambda>nc. snd nc = community_id) (community_membership metrics)) < 3
             then [''isolated_community''] else [])
          @ concat involved
          @ (if threshold < a then [''high_anomaly_score''] else []))))))"

definition node_entry :: "network_metrics \<Rightarrow> real \<Rightarrow> node \<Rightarrow> error + risk_entry list" where
  "node_entry metrics threshold n =
     and_then (node_risk_factors metrics threshold n) (\<lambda>factors.
       if factors \<noteq> []
       then and_then (lookup (map_of (anomaly_scores metrics)) n) (\<lambda>a.
            and_then (lookup (map_of (centrality_scores metrics)) n) (\<lambda>c.
            Inr [\<lparr>entity = n, risk_factors = factors, anomaly_score = a, entry_centrality = c\<rparr>]))
       else Inr [])"

definition get_high_risk_entities :: "library \<Rightarrow> nat \<Rightarrow> graph \<Rightarrow> real \<Rightarrow> error + risk_entry list" where
  "get_high_risk_entities lib random_state g threshold =
     and_then (calculate_network_metrics lib random_state g) (\<lambda>metrics.
     and_then (traverse (node_entry metrics threshold) (graph_nodes g)) (\<lambda>found.
     Inr (sort_key (\<lambda>e. - anomaly_score e) (concat found))))"

text \<open>A pattern of a given type whose entity list holds the node.\<close>

definition flags :: "node \<Rightarrow> pattern \<Rightarrow> string \<Rightarrow> bool" where
  "flags n p t \<longleftrightarrow> ptype p = Some t \<and> (\<exists>es. entities p = Some es \<and> n \<in> set es)"

section \<open>Example graphs and libraries\<close>

text \<open>
  Inputs on which the analyzer is run below. \<open>example_library\<close> gives the library routines
  fixed results: its \<open>fit_transform\<close> rejects an empty feature list, as
  \<^verbatim>\<open>StandardScaler.fit_transform([])\<close> does, and its set iteration is ascending, the order
  in which CPython iterates a set of small non-negative integers.
\<close>

definition example_graph :: graph where
  "example_graph =
     \<lparr>nodes = [(''A'', no_attrs), (''B'', no_attrs)],
      adj = (\<lambda>_. None)((''A'', ''B'') \<mapsto> shared_address, (''B'', ''A'') \<mapsto> shared_address)\<rparr>"

definition example_library :: library where
  "example_library =
     \<lparr>degree_centrality = (\<lambda>g. Inr (\<lambda>n. Some (1 / 2))),
      betweenness_centrality = (\<lambda>g. Inr (\<lambda>n. Some 0)),
      eigenvector_centrality = (\<lambda>g max_iter. Inr (\<lambda>n. Some (1 / 2))),
      pagerank_centrality = (\<lambda>g. Inr (\<lambda>n. Some (1 / 2))),
      load_centrality = (\<lambda>g. Inr (\<lambda>n. Some 0)),
      katz_centrality = (\<lambda>g. Inr (\<lambda>n. Some (1 / 2))),
      clustering = (\<lambda>g n. Inr 0),
      best_partition = (\<lambda>g random_state. Inr (\<lambda>n. Some 0)),
      label_propagation_communities = (\<lambda>g. Inr [graph_nodes g]),
      girvan_newman = (\<lambda>g. Inr [map (\<lambda>n. [n]) (graph_nodes g)]),
      simple_cycles = (\<lambda>g. Inr []),
      fit_transform = (\<lambda>m. if m = [] then Inl (Raised ''ValueError'') else Inr m),
      np_cov = (\<lambda>m. Inr m),
      linalg_inv = (\<lambda>m. Inr m),
      np_mean = (\<lambda>m. Inr [0, 0, 0, 0, 0]),
      np_distance = (\<lambda>row mean inv_cov. Inr 1),
      set_iteration = (\<lambda>ls. sort (remdups ls))\<rparr>"

text \<open>A library whose eigenvector iteration does not converge.\<close>

definition nonconverging_library :: library where
  "nonconverging_library =
     example_library\<lparr>eigenvector_centrality :=
       (\<lambda>g max_iter. Inl (Raised ''PowerIterationFailedConvergence''))\<rparr>"

text \<open>A hub with control edges to three spokes incorporated on the same day.\<close>

definition control :: edge_attrs where
  "control = \<lparr>relationship_type = ''control'', strength = 9 / 10\<rparr>"

definition dated :: node_attrs where
  "dated = no_attrs\<lparr>incorporation_date := Some ''2023-03-01''\<rparr>"

definition hub_graph :: graph where
  "hub_graph =
     \<lparr>nodes = [(''H'', no_attrs), (''S1'', dated), (''S2'', dated), (''S3'', dated)],
      adj = (\<lambda>_. None)((''H'', ''S1'') \<mapsto> control, (''S1'', ''H'') \<mapsto> control,
                         (''H'', ''S2'') \<mapsto> control, (''S2'', ''H'') \<mapsto> control,
                         (''H'', ''S3'') \<mapsto> control, (''S3'', ''H'') \<mapsto> control)\<rparr>"





section \<open>The edge-insertion methods on a given graph\<close>

text \<open>
  The three methods \<^verbatim>\<open>_add_director_relationships\<close>, \<^verbatim>\<open>_add_address_relationships\<close> and
  \<^verbatim>\<open>_add_psc_relationships\<close> receive the graph as an argument and their bodies do not read
  \<^verbatim>\<open>nx\<close>. The lemmas of this section say what they do to a graph handed to them.
\<close>

lemma adj_touch_node: "adj (touch_node g n) = adj g"
  by (simp add: touch_node_def)

lemma adj_add_edge: "adj (add_edge g u v a) = (adj g)((u, v) \<mapsto> a, (v, u) \<mapsto> a)"
  by (simp add: add_edge_def Let_def adj_touch_node)

lemma pair_swap_iff: "((x, y) = (c, d) \<or> (x, y) = (d, c)) \<longleftrightarrow> {x, y} = {c, d}"
  by (metis doubleton_eq_iff prod.inject)

lemma adj_add_edge_at:
  "adj (add_edge g c d a) (x, y) = (if {x, y} = {c, d} then Some a else adj g (x, y))"
proof -
  have "adj (add_edge g c d a) (x, y) =
        (if (x, y) = (c, d) \<or> (x, y) = (d, c) then Some a else adj g (x, y))"
    unfolding adj_add_edge by (simp del: prod.inject)
  then show ?thesis
    unfolding pair_swap_iff .
qed

lemma linked_Nil: "\<not> linked c [] x y"
  by (simp add: linked_def)

lemma linked_Cons: "linked c (d # cs) x y \<longleftrightarrow> {x, y} = {c, d} \<or> linked c cs x y"
  unfolding linked_def by (simp del: doubleton_eq_iff)

lemma adj_add_edges_from:
  "adj (foldl (\<lambda>g d. add_edge g c d a) g cs) (x, y) =
     (if linked c cs x y then Some a else adj g (x, y))"
proof (induction cs arbitrary: g)
  case Nil
  show ?case by (simp add: linked_Nil)
next
  case (Cons d cs)
  have "adj (foldl (\<lambda>g d. add_edge g c d a) g (d # cs)) (x, y) =
        adj (foldl (\<lambda>g d. add_edge g c d a) (add_edge g c d a) cs) (x, y)"
    by simp
  also have "\<dots> = (if linked c cs x y then Some a else adj (add_edge g c d a) (x, y))"
    by (rule Cons.IH)
  also have "\<dots> = (if linked c (d # cs) x y then Some a else adj g (x, y))"
    unfolding adj_add_edge_at linked_Cons by (simp del: doubleton_eq_iff)
  finally show ?case .
qed

lemma both_in_Cons:
  assumes "c \<notin> set cs"
  shows "both_in (c # cs) x y \<longleftrightarrow> linked c cs x y \<or> both_in cs x y"
proof -
  have "linked c cs x y \<longleftrightarrow> (x = c \<and> y \<in> set cs) \<or> (y = c \<and> x \<in> set cs)"
    unfolding linked_def by (metis doubleton_eq_iff)
  then show ?thesis
    unfolding both_in_def using assms by (metis set_ConsD list.set_intros(1,2))
qed

lemma adj_add_pairs:
  "distinct cs \<Longrightarrow>
   adj (add_pairs a g cs) (x, y) = (if both_in cs x y then Some a else adj g (x, y))"
proof (induction cs arbitrary: g)
  case Nil
  show ?case by (simp add: both_in_def)
next
  case (Cons c cs)
  then have nin: "c \<notin> set cs" and d: "distinct cs" by simp_all
  show ?case
    unfolding add_pairs.simps Cons.IH[OF d] adj_add_edges_from both_in_Cons[OF nin]
    by simp
qed

lemma both_in_short: "\<not> 1 < length cs \<Longrightarrow> \<not> both_in cs x y"
  by (cases cs) (auto simp: both_in_def)

lemma both_in_to_list:
  assumes "mset (to_list cs) = mset cs"
  shows "both_in (to_list cs) x y = both_in cs x y"
  using mset_eq_setD[OF assms] by (simp add: both_in_def)

lemma adj_add_group_edges:
  assumes perm: "\<And>xs. mset (to_list xs) = mset xs"
    and dist: "\<forall>kc \<in> set groups. distinct (snd kc)"
  shows "adj (add_group_edges to_list a g groups) (x, y) =
     (if in_group groups x y then Some a else adj g (x, y))"
  using dist
proof (induction groups arbitrary: g)
  case Nil
  then show ?case by (simp add: add_group_edges_def in_group_def)
next
  case (Cons kc groups)
  obtain k cs where kc: "kc = (k, cs)" by (cases kc)
  from Cons.prems kc have d: "distinct cs" by simp
  have dl: "distinct (to_list cs)"
    using perm[of cs] d mset_eq_imp_distinct_iff by blast
  have step: "add_group_edges to_list a g (kc # groups) =
      add_group_edges to_list a (if 1 < length cs then add_pairs a g (to_list cs) else g) groups"
    by (simp add: add_group_edges_def kc)
  have IH: "adj (add_group_edges to_list a g' groups) (x, y) =
     (if in_group groups x y then Some a else adj g' (x, y))" for g'
    using Cons.IH Cons.prems by simp
  have ig: "in_group (kc # groups) x y \<longleftrightarrow> both_in cs x y \<or> in_group groups x y"
    by (simp add: in_group_def kc)
  have bt: "both_in (to_list cs) x y = both_in cs x y"
    using perm[of cs] by (rule both_in_to_list)
  show ?case
    unfolding step IH ig
    using both_in_short[of cs x y]
    by (simp add: adj_add_pairs[OF dl] bt)
qed

lemma map_of_add_member:
  "map_of (add_member k c d) k' =
     (if k' = k then Some (case map_of d k of None \<Rightarrow> [c]
                           | Some s \<Rightarrow> if c \<in> set s then s else s @ [c])
      else map_of d k')"
proof (cases "map_of d k")
  case None
  then show ?thesis
    by (simp add: add_member_def map_add_def split: option.splits)
next
  case (Some s)
  then show ?thesis
    by (simp add: add_member_def update_conv')
qed

lemma members_add_member:
  "members (add_member k c d) k' = (if k' = k then insert c (members d k) else members d k')"
  unfolding members_def map_of_add_member
  by (auto split: option.splits)

lemma distinct_keys_add_member:
  "distinct (map fst d) \<Longrightarrow> distinct (map fst (add_member k c d))"
proof (cases "map_of d k")
  case None
  then have "k \<notin> fst ` set d" by (simp add: map_of_eq_None_iff)
  with None show "distinct (map fst d) \<Longrightarrow> ?thesis"
    by (simp add: add_member_def)
next
  case (Some s)
  then show "distinct (map fst d) \<Longrightarrow> ?thesis"
    by (simp add: add_member_def distinct_update)
qed

lemma wf_groups_alt:
  "wf_groups d \<longleftrightarrow> distinct (map fst d) \<and> (\<forall>k cs. map_of d k = Some cs \<longrightarrow> distinct cs)"
  unfolding wf_groups_def by (force dest: map_of_SomeD)

lemma wf_groups_add_member: "wf_groups d \<Longrightarrow> wf_groups (add_member k c d)"
  unfolding wf_groups_alt
  by (auto simp: distinct_keys_add_member map_of_add_member split: if_splits option.splits)

lemma carriers_Nil: "carriers keys [] k = {}"
  by (simp add: carriers_def)

lemma carriers_Cons:
  "carriers keys (b # bs) k =
     (case profile b of None \<Rightarrow> {}
      | Some p \<Rightarrow> if k \<in> set (keys b) then {company_number p} else {}) \<union> carriers keys bs k"
  unfolding carriers_def by (auto split: option.splits)

lemma members_add_keys:
  "members (foldl (\<lambda>d k. add_member k c d) d ks) k' =
     members d k' \<union> (if k' \<in> set ks then {c} else {})"
  by (induction ks arbitrary: d) (auto simp: members_add_member)

lemma wf_groups_add_keys:
  "wf_groups d \<Longrightarrow> wf_groups (foldl (\<lambda>d k. add_member k c d) d ks)"
  by (induction ks arbitrary: d) (simp_all add: wf_groups_add_member)

lemma group_companies_fold: "group_companies keys companies_data = foldl (group_step keys) [] companies_data"
  unfolding group_companies_def group_step_def ..

lemma members_group_step:
  "members (group_step keys d b) k =
     members d k \<union> (case profile b of None \<Rightarrow> {}
                     | Some p \<Rightarrow> if k \<in> set (keys b) then {company_number p} else {})"
  by (simp add: group_step_def members_add_keys split: option.splits)

lemma wf_groups_step: "wf_groups d \<Longrightarrow> wf_groups (group_step keys d b)"
  by (simp add: group_step_def wf_groups_add_keys split: option.splits)

lemma members_fold_step:
  "members (foldl (group_step keys) d bs) k = members d k \<union> carriers keys bs k"
  by (induction bs arbitrary: d) (simp_all add: carriers_Nil carriers_Cons members_group_step Un_assoc)

lemma wf_groups_fold_step: "wf_groups d \<Longrightarrow> wf_groups (foldl (group_step keys) d bs)"
  by (induction bs arbitrary: d) (simp_all add: wf_groups_step)

lemma members_group_companies:
  "members (group_companies keys companies_data) k = carriers keys companies_data k"
proof -
  have "members ([] :: ('a \<times> company_number list) list) k = {}"
    by (simp add: members_def)
  then show ?thesis
    unfolding group_companies_fold members_fold_step by simp
qed

lemma wf_group_companies: "wf_groups (group_companies keys companies_data)"
proof -
  have "wf_groups ([] :: ('a \<times> company_number list) list)"
    by (simp add: wf_groups_def)
  then show ?thesis
    unfolding group_companies_fold by (rule wf_groups_fold_step)
qed

lemma in_group_members:
  assumes "wf_groups d"
  shows "in_group d x y \<longleftrightarrow> x \<noteq> y \<and> (\<exists>k. x \<in> members d k \<and> y \<in> members d k)"
proof
  assume "in_group d x y"
  then obtain k cs where kc: "(k, cs) \<in> set d" and b: "both_in cs x y"
    by (auto simp: in_group_def)
  from assms kc have "map_of d k = Some cs" by (simp add: wf_groups_def)
  then have "members d k = set cs" by (simp add: members_def)
  with b show "x \<noteq> y \<and> (\<exists>k. x \<in> members d k \<and> y \<in> members d k)"
    unfolding both_in_def by blast
next
  assume r: "x \<noteq> y \<and> (\<exists>k. x \<in> members d k \<and> y \<in> members d k)"
  then obtain k where k: "x \<in> members d k" "y \<in> members d k" by blast
  then obtain cs where cs: "map_of d k = Some cs" "x \<in> set cs" "y \<in> set cs"
    by (auto simp: members_def split: option.splits)
  then have "(k, cs) \<in> set d" by (simp add: map_of_SomeD)
  moreover from cs r have "both_in (snd (k, cs)) x y"
    by (simp add: both_in_def)
  ultimately show "in_group d x y"
    unfolding in_group_def by blast
qed

lemma in_carriers:
  "x \<in> carriers keys companies_data k \<longleftrightarrow>
     (\<exists>b \<in> set companies_data. k \<in> set (keys b) \<and>
        (case profile b of None \<Rightarrow> False | Some p \<Rightarrow> company_number p = x))"
  unfolding carriers_def by (auto split: option.splits)

lemma proposes_carriers:
  "proposes keys companies_data x y \<longleftrightarrow>
     x \<noteq> y \<and> (\<exists>k. x \<in> carriers keys companies_data k \<and> y \<in> carriers keys companies_data k)"
  unfolding proposes_def in_carriers by blast

lemma in_group_proposes:
  "in_group (group_companies keys companies_data) x y \<longleftrightarrow> proposes keys companies_data x y"
  by (simp add: in_group_members[OF wf_group_companies] members_group_companies proposes_carriers)

lemma adj_rule:
  assumes "\<And>xs. mset (to_list xs) = mset xs"
  shows "adj (add_group_edges to_list a g (group_companies keys companies_data)) (x, y) =
     (if proposes keys companies_data x y then Some a else adj g (x, y))"
proof -
  have "\<forall>kc \<in> set (group_companies keys companies_data). distinct (snd kc)"
    using wf_group_companies[of keys companies_data] by (simp add: wf_groups_def)
  from adj_add_group_edges[OF assms this] show ?thesis
    by (simp add: in_group_proposes)
qed

lemma example_data_proposes:
  "proposes director_keys example_data ''A'' ''B''"
  "proposes address_keys example_data ''A'' ''B''"
  "\<not> proposes psc_keys example_data ''A'' ''B''"
  by (simp_all add: proposes_def example_data_def example_company_def example_profile_def
      director_keys_def director_key_def example_officer_def address_keys_def
      example_address_def psc_keys_def)

lemma psc_keys_example_owned: "psc_keys (example_owned cn) = [Some ''HOLDCO LTD'']"
  by (simp add: psc_keys_def example_owned_def example_owner_def)

lemma profile_example_owned: "profile (example_owned cn) = profile (example_company cn)"
  by (simp add: example_owned_def)

lemma example_owned_data_proposes:
  "proposes director_keys example_owned_data ''A'' ''B''"
  "proposes address_keys example_owned_data ''A'' ''B''"
  by (simp_all add: proposes_def example_owned_data_def example_owned_def example_company_def
      example_profile_def director_keys_def director_key_def example_officer_def
      address_keys_def example_address_def)

lemma example_owned_data_proposes_psc:
  "proposes psc_keys example_owned_data ''A'' ''B''"
  by (simp add: proposes_def example_owned_data_def psc_keys_example_owned
      profile_example_owned example_company_def example_profile_def)

lemma adj_relationship_methods:
  assumes "\<And>xs. mset (to_list xs) = mset xs"
  shows "adj (add_psc_relationships to_list
              (add_address_relationships to_list
                (add_director_relationships to_list g companies_data) companies_data)
              companies_data) (x, y) =
     (if proposes psc_keys companies_data x y then Some shared_psc
      else if proposes address_keys companies_data x y then Some shared_address
      else if proposes director_keys companies_data x y then Some shared_director
      else adj g (x, y))"
  unfolding add_psc_relationships_def add_address_relationships_def
    add_director_relationships_def adj_rule[of to_list, OF assms]
  by simp

section \<open>build_company_network never returns a graph\<close>

text \<open>
  Claim C1 asks that the graph produced by \<^verbatim>\<open>build_company_network\<close> keeps one typed edge
  per proposing rule. For two companies with the same director and the same registered
  office, which two rules propose, the call raises \<^verbatim>\<open>NameError\<close> and produces no graph.
\<close>

theorem parallel_edges_name_error:
  "proposes director_keys example_data ''A'' ''B'' \<and>
   proposes address_keys example_data ''A'' ''B'' \<and>
   build_company_network to_list example_data = Inl NameError"
  by (simp add: example_data_proposes build_company_network_def nx_Graph_def and_then_def)

text \<open>
  Claim C9 compares the edge sets that \<^verbatim>\<open>build_company_network\<close> produces for two
  orderings of the same bundles. On either ordering, and whatever the order in which the
  Python sets are listed, the call raises \<^verbatim>\<open>NameError\<close>: there is no edge set to compare.
\<close>

theorem permuted_input_name_error:
  "build_company_network to_list companies_data = Inl NameError \<and>
   build_company_network to_list' (rev companies_data) = Inl NameError"
  by (simp add: build_company_network_def nx_Graph_def and_then_def)

text \<open>
  Claim C10 describes the single edge of a pair related by more than one rule in the graph
  that \<^verbatim>\<open>build_company_network\<close> produces. For two companies that share a director, an
  address and a corporate-entity PSC the call raises \<^verbatim>\<open>NameError\<close> and produces no graph.
\<close>

theorem last_rule_name_error:
  "proposes director_keys example_owned_data ''A'' ''B'' \<and>
   proposes address_keys example_owned_data ''A'' ''B'' \<and>
   proposes psc_keys example_owned_data ''A'' ''B'' \<and>
   build_company_network to_list example_owned_data = Inl NameError"
  by (simp add: example_owned_data_proposes example_owned_data_proposes_psc
      build_company_network_def nx_Graph_def and_then_def)

section \<open>Sequencing, loops and dictionaries\<close>

lemma and_then_Inr_iff: "and_then m f = Inr y \<longleftrightarrow> (\<exists>x. m = Inr x \<and> f x = Inr y)"
  by (cases m) (simp_all add: and_then_def)

lemma and_then_simps:
  "and_then (Inl e) f = Inl e"
  "and_then (Inr x) f = f x"
  by (simp_all add: and_then_def)










section \<open>_detect_communities\<close>













section \<open>The undefined helper methods\<close>

lemma identify_risk_patterns_fails: "identify_risk_patterns g = Inl AttributeError"
  by (simp add: identify_risk_patterns_def find_circular_ownership_def and_then_simps)

lemma node_centrality_fails: "\<exists>e. node_centrality lib g n = Inl e"
  unfolding node_centrality_def calculate_reach_centrality_def
  by (auto simp: and_then_def split: sum.splits)

lemma node_features_fails: "\<exists>e. node_features lib g n = Inl e"
  unfolding node_features_def calculate_reach_centrality_def
  by (auto simp: and_then_def split: sum.splits)

lemma example_graph_nodes: "graph_nodes example_graph = [''A'', ''B'']"
  by (simp add: graph_nodes_def example_graph_def)

lemma hub_graph_nodes: "graph_nodes hub_graph = [''H'', ''S1'', ''S2'', ''S3'']"
  by (simp add: graph_nodes_def hub_graph_def)

lemma example_node_centrality: "node_centrality example_library g n = Inl AttributeError"
  by (simp add: node_centrality_def calculate_reach_centrality_def example_library_def
      and_then_simps lookup_def)

lemma example_node_features: "node_features example_library g n = Inl AttributeError"
  by (simp add: node_features_def calculate_reach_centrality_def example_library_def
      and_then_simps lookup_def)

text \<open>
  Claim C3 is about the bundle that \<^verbatim>\<open>calculate_network_metrics\<close> returns. Whatever the
  graph, the library and the state of the random generator, the call returns no bundle:
  \<^verbatim>\<open>_identify_risk_patterns\<close> calls the undefined \<^verbatim>\<open>_find_circular_ownership\<close>, and on a
  graph with a node the centrality loop fails even earlier.
\<close>

theorem metrics_never_returned:
  "\<exists>e. calculate_network_metrics lib random_state g = Inl e"
  unfolding calculate_network_metrics_def identify_risk_patterns_fails
  by (auto simp: and_then_def split: sum.splits)

text \<open>
  Claim C4 compares the entities returned by \<^verbatim>\<open>get_high_risk_entities\<close> for two
  thresholds. Whatever the graph, the library, the state of the random generator and the
  threshold, the call returns no list: it starts with \<^verbatim>\<open>calculate_network_metrics\<close>.
\<close>

theorem high_risk_never_returned:
  "\<exists>e. get_high_risk_entities lib random_state g threshold = Inl e"
  unfolding get_high_risk_entities_def calculate_network_metrics_def identify_risk_patterns_fails
  by (auto simp: and_then_def split: sum.splits)


text \<open>
  Claim C7 is about \<^verbatim>\<open>_calculate_anomaly_scores\<close> on a singular covariance matrix. On the
  two-node graph, whose nodes have equal features, the feature loop calls the undefined
  \<^verbatim>\<open>_calculate_reach_centrality\<close> for the first node: the function ends with
  \<^verbatim>\<open>AttributeError\<close> before any covariance is computed or inverted.
\<close>

theorem anomaly_attribute_error:
  "anomaly_features example_library example_graph = Inl AttributeError \<and>
   calculate_anomaly_scores example_library example_graph = Inl AttributeError"
  by (simp add: calculate_anomaly_scores_def anomaly_features_def example_graph_nodes
      example_node_features and_then_simps)

text \<open>
  Claim C8 is about the risk factors that \<^verbatim>\<open>get_high_risk_entities\<close> collects. On a hub
  with three spokes the call ends with \<^verbatim>\<open>AttributeError\<close> inside
  \<^verbatim>\<open>calculate_network_metrics\<close>, before the loop over the nodes: no risk factor is
  collected for any node.
\<close>

theorem hub_attribute_error:
  "calculate_network_metrics example_library 0 hub_graph = Inl AttributeError \<and>
   get_high_risk_entities example_library 0 hub_graph (8 / 10) = Inl AttributeError"
  by (simp add: get_high_risk_entities_def calculate_network_metrics_def
      calculate_centrality_metrics_def fill_dict_def hub_graph_nodes example_node_centrality
      and_then_simps)

section \<open>Non-convergence of the eigenvector iteration\<close>

text \<open>
  Claim C6 says that non-convergence of the eigenvector iteration never aborts the run.
  networkx reports non-convergence by raising \<^verbatim>\<open>PowerIterationFailedConvergence\<close>, and the
  analyzer has no handler: on the two-node graph the exception leaves
  \<^verbatim>\<open>_calculate_centrality_metrics\<close> and \<^verbatim>\<open>calculate_network_metrics\<close>.
\<close>

theorem nonconvergence_counterexample:
  "eigenvector_centrality nonconverging_library example_graph 1000 =
     Inl (Raised ''PowerIterationFailedConvergence'') \<and>
   calculate_centrality_metrics nonconverging_library example_graph =
     Inl (Raised ''PowerIterationFailedConvergence'') \<and>
   calculate_network_metrics nonconverging_library 0 example_graph =
     Inl (Raised ''PowerIterationFailedConvergence'')"
  by (simp add: calculate_network_metrics_def calculate_centrality_metrics_def fill_dict_def
      node_centrality_def nonconverging_library_def example_library_def example_graph_nodes
      and_then_simps lookup_def)

text \<open>
  Claim C6, as the code has it: if the eigenvector iteration fails to converge within the
  cap of 1000 iterations, the routine raises and the exception propagates. Once the degree
  and betweenness centralities of the first node have been obtained,
  \<^verbatim>\<open>_calculate_centrality_metrics\<close> returns no value and \<^verbatim>\<open>calculate_network_metrics\<close> fails,
  both with the exception of the eigenvector routine.
\<close>

theorem nonconvergence_propagates:
  assumes "graph_nodes g = n # ns"
    and "degree_centrality lib g = Inr d" and "d n = Some x"
    and "betweenness_centrality lib g = Inr b" and "b n = Some y"
    and "eigenvector_centrality lib g 1000 = Inl e"
  shows "calculate_centrality_metrics lib g = Inl e \<and>
         calculate_network_metrics lib random_state g = Inl e"
proof -
  have "node_centrality lib g n = Inl e"
    by (simp add: node_centrality_def assms(2-6) lookup_def and_then_simps)
  then have "calculate_centrality_metrics lib g = Inl e"
    by (simp add: calculate_centrality_metrics_def fill_dict_def assms(1) and_then_simps)
  then show ?thesis
    by (simp add: calculate_network_metrics_def and_then_simps)
qed

theorem nonconvergence_propagates_witness:
  "graph_nodes example_graph = ''A'' # [''B''] \<and>
   degree_centrality nonconverging_library example_graph = Inr (\<lambda>n. Some (1 / 2)) \<and>
   (\<lambda>n :: node. Some (1 / 2 :: real)) ''A'' = Some (1 / 2) \<and>
   betweenness_centrality nonconverging_library example_graph = Inr (\<lambda>n. Some 0) \<and>
   (\<lambda>n :: node. Some (0 :: real)) ''A'' = Some 0 \<and>
   eigenvector_centrality nonconverging_library example_graph 1000 =
     Inl (Raised ''PowerIterationFailedConvergence'') \<and>
   calculate_centrality_metrics nonconverging_library example_graph =
     Inl (Raised ''PowerIterationFailedConvergence'') \<and>
   calculate_network_metrics nonconverging_library 0 example_graph =
     Inl (Raised ''PowerIterationFailedConvergence'')"
proof -
  have d: "degree_centrality nonconverging_library example_graph = Inr (\<lambda>n. Some (1 / 2))"
    and b: "betweenness_centrality nonconverging_library example_graph = Inr (\<lambda>n. Some 0)"
    and e: "eigenvector_centrality nonconverging_library example_graph 1000 =
       Inl (Raised ''PowerIterationFailedConvergence'')"
    by (simp_all add: nonconverging_library_def example_library_def)
  have n: "graph_nodes example_graph = ''A'' # [''B'']" by (simp add: example_graph_nodes)
  from nonconvergence_propagates[OF n d refl b refl e, of 0] n d b e
  show ?thesis by simp
qed

section \<open>The risk-factor loop on a given bundle\<close>

text \<open>
  What the body of the loop of \<^verbatim>\<open>get_high_risk_entities\<close> computes from a bundle handed
  to it: only the \<open>entities\<close> lists of \<open>risk_patterns\<close> yield \<open>involved_in_\<close> factors, and a
  lower threshold keeps every node that has a factor.
\<close>

lemma node_risk_factors_mono:
  assumes "t1 < t2" and "node_risk_factors m t2 n = Inr f2"
  shows "\<exists>f1. node_risk_factors m t1 n = Inr f1 \<and> (f2 \<noteq> [] \<longrightarrow> f1 \<noteq> [])"
proof -
  from assms(2) obtain c cid inv a where
    l: "lookup (map_of (centrality_scores m)) n = Inr c"
       "lookup (map_of (community_membership m)) n = Inr cid"
       "traverse (pattern_factor n) (risk_patterns m) = Inr inv"
       "lookup (map_of (anomaly_scores m)) n = Inr a"
    and f2: "f2 = (if t2 < betweenness c then [''high_betweenness_centrality''] else [])
          @ (if t2 < pagerank c then [''high_pagerank''] else [])
          @ (if length (filter (\<lambda>nc. snd nc = cid) (community_membership m)) < 3
             then [''isolated_community''] else [])
          @ concat inv
          @ (if t2 < a then [''high_anomaly_score''] else [])"
    unfolding node_risk_factors_def and_then_Inr_iff by blast
  let ?f1 = "(if t1 < betweenness c then [''high_betweenness_centrality''] else [])
          @ (if t1 < pagerank c then [''high_pagerank''] else [])
          @ (if length (filter (\<lambda>nc. snd nc = cid) (community_membership m)) < 3
             then [''isolated_community''] else [])
          @ concat inv
          @ (if t1 < a then [''high_anomaly_score''] else [])"
  have "node_risk_factors m t1 n = Inr ?f1"
    by (simp add: node_risk_factors_def l and_then_simps)
  moreover have "f2 \<noteq> [] \<longrightarrow> ?f1 \<noteq> []"
    unfolding f2 using assms(1) by (auto split: if_splits)
  ultimately show ?thesis by blast
qed

lemma pattern_factor_set:
  assumes "pattern_factor n p = Inr fs"
  shows "set fs = {''involved_in_'' @ t | t. flags n p t}"
proof (cases "n \<in> set (case entities p of None \<Rightarrow> [] | Some es \<Rightarrow> es)")
  case True
  with assms obtain t where t: "ptype p = Some t" and fs: "fs = [''involved_in_'' @ t]"
    by (auto simp: pattern_factor_def split: option.splits)
  from True obtain es where "entities p = Some es" "n \<in> set es"
    by (cases "entities p") auto
  with t have "flags n p t' \<longleftrightarrow> t' = t" for t'
    by (auto simp: flags_def)
  then show ?thesis by (simp add: fs)
next
  case False
  have "pattern_factor n p = Inr []"
    by (simp only: pattern_factor_def False if_False)
  with assms have fs: "fs = []" by simp
  from False have "\<not> flags n p t" for t
    by (auto simp: flags_def)
  then show ?thesis by (simp add: fs)
qed

lemma involved_set:
  "traverse (pattern_factor n) ps = Inr involved \<Longrightarrow>
   set (concat involved) = {''involved_in_'' @ t | t. \<exists>p \<in> set ps. flags n p t}"
proof (induction ps arbitrary: involved)
  case Nil
  then show ?case by simp
next
  case (Cons p ps)
  from Cons.prems obtain fs involved' where fs: "pattern_factor n p = Inr fs"
      and involved': "traverse (pattern_factor n) ps = Inr involved'" and involved: "involved = fs # involved'"
    by (auto simp: and_then_Inr_iff)
  have "set (concat involved) = set fs \<union> set (concat involved')" by (simp add: involved)
  also have "\<dots> = {''involved_in_'' @ t | t. flags n p t} \<union>
                  {''involved_in_'' @ t | t. \<exists>p \<in> set ps. flags n p t}"
    by (simp only: pattern_factor_set[OF fs] Cons.IH[OF involved'])
  also have "\<dots> = {''involved_in_'' @ t | t. \<exists>q \<in> set (p # ps). flags n q t}"
    by auto
  finally show ?case .
qed

lemma factors_involved_iff:
  assumes "node_risk_factors m threshold n = Inr fs"
  shows "''involved_in_'' @ t \<in> set fs \<longleftrightarrow>
         (\<exists>p \<in> set (risk_patterns m).
            ptype p = Some t \<and> (\<exists>es. entities p = Some es \<and> n \<in> set es))"
proof -
  from assms obtain c cid involved a where
    l: "lookup (map_of (centrality_scores m)) n = Inr c"
       "lookup (map_of (community_membership m)) n = Inr cid"
       "lookup (map_of (anomaly_scores m)) n = Inr a"
    and involved: "traverse (pattern_factor n) (risk_patterns m) = Inr involved"
    and fs: "fs = (if threshold < betweenness c then [''high_betweenness_centrality''] else [])
          @ (if threshold < pagerank c then [''high_pagerank''] else [])
          @ (if length (filter (\<lambda>nc. snd nc = cid) (community_membership m)) < 3
             then [''isolated_community''] else [])
          @ concat involved
          @ (if threshold < a then [''high_anomaly_score''] else [])"
    unfolding node_risk_factors_def and_then_Inr_iff by blast
  have "''involved_in_'' @ t \<in> set fs \<longleftrightarrow> ''involved_in_'' @ t \<in> set (concat involved)"
    unfolding fs by simp
  also have "\<dots> \<longleftrightarrow> (\<exists>p \<in> set (risk_patterns m). flags n p t)"
    unfolding involved_set[OF involved] by auto
  finally show ?thesis by (simp add: flags_def)
qed

end
